theory Spec2Isabelle
  imports Main "HOL-Library.Word"
begin

section \<open>Hotspot: the source code model and the main window\<close>

text \<open>
  A shallow embedding of \<^verbatim>\<open>SourceCodeModel\<close> (sourcecodemodel.cpp) and of the
  parse-lifecycle handlers and \<^verbatim>\<open>formatTimeString\<close> of mainwindow.cpp.

  C++ \<^verbatim>\<open>int\<close> values are modelled as \<open>int\<close>: signed overflow is undefined in C++,
  so there is no wrap-around to write out; where the 32-bit range of an input matters it
  is stated with \<open>is_int\<close>. \<^verbatim>\<open>quint64\<close> costs are \<open>64 word\<close>.
\<close>

subsection \<open>Qt values used by the model\<close>

definition INT_MAX :: int where
  "INT_MAX = 2147483647"

definition INT_MIN :: int where
  "INT_MIN = - 2147483648"

definition is_int :: "int \<Rightarrow> bool" where
  "is_int v \<longleftrightarrow> INT_MIN \<le> v \<and> v \<le> INT_MAX"

text \<open>
  The item data roles \<^verbatim>\<open>data\<close> and \<^verbatim>\<open>headerData\<close> dispatch on: two roles of Qt, the
  custom roles of the model, and any other role number.
\<close>

datatype role =
    DisplayRole
  | ToolTipRole
  | CostRole
  | TotalCostRole
  | SyntaxHighlightRole
  | HighlightRole
  | RainbowLineNumberRole
  | FileNameRole
  | LineNumberRole
  | OtherRole int


text \<open>
  A \<^verbatim>\<open>QVariant\<close>: \<open>Invalid\<close> is the default-constructed \<^verbatim>\<open>{}\<close>. \<open>VTextLine\<close> stands for
  the first layout line of the block with the given text, and \<open>VCostRelative cost total\<close>
  for the string \<^verbatim>\<open>Util::formatCostRelative(cost, total, true)\<close>, whose formatting is
  outside this file.
\<close>

datatype QVariant =
    Invalid
  | VString string
  | VInt int
  | VBool bool
  | VCost "64 word"
  | VTextLine string
  | VCostRelative "64 word" "64 word"

text \<open>
  A \<^verbatim>\<open>QModelIndex\<close>: row, column and whether it belongs to a model. The default index
  \<^verbatim>\<open>QModelIndex()\<close> has row and column -1 and no model.
\<close>

record QModelIndex =
  row :: int
  column :: int
  hasModel :: bool

definition rootIndex :: QModelIndex where
  "rootIndex = \<lparr>row = - 1, column = - 1, hasModel = False\<rparr>"

definition isValid :: "QModelIndex \<Rightarrow> bool" where
  "isValid i \<longleftrightarrow> row i \<ge> 0 \<and> column i \<ge> 0 \<and> hasModel i"

text \<open>\<^verbatim>\<open>QAbstractTableModel::parent\<close>: every index of a table model has the root as parent.\<close>

definition parent :: "QModelIndex \<Rightarrow> QModelIndex" where
  "parent i = rootIndex"

subsection \<open>Cost tables\<close>

text \<open>
  Modelled from the spec: \<^verbatim>\<open>Data::Costs\<close> is declared in data.h, which is not among the
  sources. It is the "already-computed cost lookup" of the spec: a list of cost type
  names, a cost per type and id (0 where nothing was added), and a total per type.
  A default-constructed table has no types.
\<close>

record Costs =
  m_typeNames :: "string list"
  m_costs :: "int \<Rightarrow> int \<Rightarrow> 64 word"
  m_totalCosts :: "int \<Rightarrow> 64 word"

definition emptyCosts :: Costs where
  "emptyCosts = \<lparr>m_typeNames = [], m_costs = (\<lambda>t i. 0), m_totalCosts = (\<lambda>t. 0)\<rparr>"

definition numTypes :: "Costs \<Rightarrow> int" where
  "numTypes c = int (length (m_typeNames c))"


definition cost :: "Costs \<Rightarrow> int \<Rightarrow> int \<Rightarrow> 64 word" where
  "cost c t i = m_costs c t i"

definition totalCost :: "Costs \<Rightarrow> int \<Rightarrow> 64 word" where
  "totalCost c t = m_totalCosts c t"

definition initializeCostsFrom :: "Costs \<Rightarrow> Costs" where
  "initializeCostsFrom rhs =
     \<lparr>m_typeNames = m_typeNames rhs, m_costs = (\<lambda>t i. 0), m_totalCosts = m_totalCosts rhs\<rparr>"

type_synonym ItemCost = "64 word list"

definition add :: "Costs \<Rightarrow> int \<Rightarrow> ItemCost \<Rightarrow> Costs" where
  "add c i delta =
     c\<lparr>m_costs := (\<lambda>t j.
          if j = i \<and> 0 \<le> t \<and> t < numTypes c \<and> nat t < length delta
          then m_costs c t j + delta ! nat t
          else m_costs c t j)\<rparr>"

subsection \<open>Disassembly output and caller/callee results\<close>

record Symbol =
  symbol :: string
  binary :: string
  prettySymbol :: string

record DisassemblyLine =
  addr :: "64 word"
  sourceFileName :: string
  sourceCodeLine :: int

record DisassemblyOutput =
  mainSourceFileName :: string
  disassemblyLines :: "DisassemblyLine list"
  disassemblySymbol :: Symbol

record LocationCost =
  selfCost :: ItemCost
  inclusiveCost :: ItemCost

record CallerCalleeEntry =
  offsetMap :: "64 word \<rightharpoonup> LocationCost"

record CallerCalleeResults =
  entries :: "Symbol \<rightharpoonup> CallerCalleeEntry"
  selfCosts :: Costs
  inclusiveCosts :: Costs

subsection \<open>The text document\<close>

text \<open>
  A \<^verbatim>\<open>QTextDocument\<close> is the list of its blocks (one per line of plain text); an empty
  document has one empty block. With the text width set to the ideal width no block
  wraps, so line numbers are block numbers.
\<close>

type_synonym QTextDocument = "string list"

definition emptyDocument :: QTextDocument where
  "emptyDocument = [[]]"

fun setPlainText :: "string \<Rightarrow> QTextDocument" where
  "setPlainText [] = [[]]"
| "setPlainText (c # cs) =
     (if c = CHR 0x0A then [] # setPlainText cs
      else (case setPlainText cs of
              [] \<Rightarrow> [[c]]
            | l # ls \<Rightarrow> (c # l) # ls))"

definition findBlockByLineNumber :: "QTextDocument \<Rightarrow> int \<Rightarrow> string option" where
  "findBlockByLineNumber doc n =
     (if 0 \<le> n \<and> n < int (length doc) then Some (doc ! nat n) else None)"

text \<open>
  The cursor edit that closes \<^verbatim>\<open>setDisassembly\<close>: the line under a cursor placed on the
  block found for \<open>n\<close> is replaced by the inserted text. A cursor built from a block that
  was not found sits at position 0, on the first line.
\<close>

definition replaceLineUnderCursor :: "QTextDocument \<Rightarrow> int \<Rightarrow> string \<Rightarrow> QTextDocument" where
  "replaceLineUnderCursor doc n text =
     (let k = (if 0 \<le> n \<and> n < int (length doc) then nat n else 0)
      in take k doc @ setPlainText text @ drop (Suc k) doc)"

subsection \<open>The model\<close>

text \<open>
  Modelled from the spec: the enum \<^verbatim>\<open>Columns\<close> is declared in sourcecodemodel.h, which is
  not among the sources, and sourcecodemodel.cpp only compares against its names. The
  three values below are those of the declaration order \<^verbatim>\<open>SourceCodeColumn\<close>,
  \<^verbatim>\<open>SourceCodeLineNumber\<close>, \<^verbatim>\<open>COLUMN_COUNT\<close>, in which the display grid has the source
  code first, the line number second and the cost columns after them. Neither the sources
  nor the spec fix that order, so what is proved of the header labels takes the three
  enumerators as parameters (\<open>headerDataWith\<close> below).
\<close>

definition SourceCodeColumn :: int where
  "SourceCodeColumn = 0"

definition SourceCodeLineNumber :: int where
  "SourceCodeLineNumber = 1"

definition COLUMN_COUNT :: int where
  "COLUMN_COUNT = 2"

record SourceCodeModel =
  m_document :: QTextDocument
  m_highlighterDefinition :: string
  m_selfCosts :: Costs
  m_inclusiveCosts :: Costs
  m_validLineNumbers :: "int set"
  m_numLines :: int
  m_lineOffset :: int
  m_startLine :: int
  m_highlightLine :: int
  m_mainSourceFileName :: string
  m_sysroot :: string

definition columnCount :: "SourceCodeModel \<Rightarrow> QModelIndex \<Rightarrow> int" where
  "columnCount m p =
     (if isValid p then 0
      else COLUMN_COUNT + numTypes (m_selfCosts m) + numTypes (m_inclusiveCosts m))"

definition rowCount :: "SourceCodeModel \<Rightarrow> QModelIndex \<Rightarrow> int" where
  "rowCount m p = (if isValid p then 0 else m_numLines m)"

text \<open>\<^verbatim>\<open>QAbstractItemModel::hasIndex\<close>, over the two counts above.\<close>

definition hasIndex :: "SourceCodeModel \<Rightarrow> int \<Rightarrow> int \<Rightarrow> QModelIndex \<Rightarrow> bool" where
  "hasIndex m r c p =
     (if r < 0 \<or> c < 0 then False
      else r < rowCount m p \<and> c < columnCount m p)"

text \<open>
  \<^verbatim>\<open>beginResetModel\<close> and \<^verbatim>\<open>endResetModel\<close> notify the views and change no member of the
  model, so the operations below are functions on the members alone.
\<close>

definition clear :: "SourceCodeModel \<Rightarrow> SourceCodeModel" where
  "clear m = m\<lparr>m_document := emptyDocument\<rparr>"



text \<open>The lambda \<^verbatim>\<open>cost\<close> inside \<^verbatim>\<open>data\<close>.\<close>

definition costVariant :: "role \<Rightarrow> int \<Rightarrow> int \<Rightarrow> Costs \<Rightarrow> QVariant" where
  "costVariant r i t costs =
     (let c = cost costs t i; total = totalCost costs t in
      if r = CostRole then VCost c
      else if r = TotalCostRole then VCost total
      else VCostRelative c total)"

definition data :: "SourceCodeModel \<Rightarrow> QModelIndex \<Rightarrow> role \<Rightarrow> QVariant" where
  "data m index r =
     (if \<not> hasIndex m (row index) (column index) (parent index) then Invalid
      else if row index > m_numLines m \<or> row index < 0 then Invalid
      else if r = FileNameRole then VString (m_mainSourceFileName m)
      else if r = LineNumberRole then VInt (row index + m_lineOffset m)
      else if r = DisplayRole \<or> r = ToolTipRole \<or> r = CostRole \<or> r = TotalCostRole
              \<or> r = SyntaxHighlightRole
      then
        (if column index = SourceCodeColumn then
           (case findBlockByLineNumber (m_document m) (row index + m_startLine m) of
              None \<Rightarrow> Invalid
            | Some block \<Rightarrow>
                if r = SyntaxHighlightRole then VTextLine block else VString block)
         else if column index = SourceCodeLineNumber then VInt (row index + m_lineOffset m)
         else (let i = row index + m_lineOffset m; col = column index - COLUMN_COUNT in
               if col < numTypes (m_selfCosts m) then costVariant r i col (m_selfCosts m)
               else costVariant r i (col - numTypes (m_selfCosts m)) (m_inclusiveCosts m)))
      else if r = HighlightRole then VBool (row index + m_lineOffset m = m_highlightLine m)
      else if r = RainbowLineNumberRole then
        (let line = row index + m_lineOffset m in
         if line \<in> m_validLineNumbers m then VInt line else VInt (- 1))
      else Invalid)"

definition updateHighlighting :: "SourceCodeModel \<Rightarrow> int \<Rightarrow> SourceCodeModel" where
  "updateHighlighting m line = m\<lparr>m_highlightLine := line\<rparr>"

definition lineForIndex :: "SourceCodeModel \<Rightarrow> QModelIndex \<Rightarrow> int" where
  "lineForIndex m index = row index + m_lineOffset m"

definition setSysroot :: "SourceCodeModel \<Rightarrow> string \<Rightarrow> SourceCodeModel" where
  "setSysroot m sysroot = m\<lparr>m_sysroot := sysroot\<rparr>"

subsection \<open>Loading a disassembly\<close>

text \<open>
  The file system is a parameter: a partial map from paths to file contents, and
  \<^verbatim>\<open>file.open\<close> fails where it is undefined. \<^verbatim>\<open>QDir::separator()\<close> is the native
  separator, a slash on the platforms \<^verbatim>\<open>perf\<close> runs on.
\<close>

type_synonym FileSystem = "string \<rightharpoonup> string"

definition QDir_separator :: string where
  "QDir_separator = ''/''"

text \<open>A failed \<^verbatim>\<open>Q_ASSERT\<close> aborts the program.\<close>

datatype failure = AssertionFailed

text \<open>
  The loop over \<^verbatim>\<open>disassemblyLines\<close>, on the locals \<^verbatim>\<open>maxLineNumber\<close> and
  \<^verbatim>\<open>minLineNumber\<close> and on the model.
\<close>

fun setDisassembly_loop ::
  "DisassemblyOutput \<Rightarrow> CallerCalleeResults \<Rightarrow> DisassemblyLine list
     \<Rightarrow> int \<times> int \<times> SourceCodeModel \<Rightarrow> int \<times> int \<times> SourceCodeModel" where
  "setDisassembly_loop out results [] s = s"
| "setDisassembly_loop out results (line # lines) (maxLineNumber, minLineNumber, m) =
     (if sourceCodeLine line = 0 \<or> sourceFileName line \<noteq> mainSourceFileName out
      then setDisassembly_loop out results lines (maxLineNumber, minLineNumber, m)
      else
        (let maxLineNumber1 =
               (if sourceCodeLine line > maxLineNumber then sourceCodeLine line
                else maxLineNumber);
             minLineNumber1 =
               (if sourceCodeLine line < minLineNumber then sourceCodeLine line
                else minLineNumber);
             m1 =
               (case entries results (disassemblySymbol out) of
                  None \<Rightarrow> m
                | Some entry \<Rightarrow>
                    (case offsetMap entry (addr line) of
                       None \<Rightarrow> m
                     | Some locationCost \<Rightarrow>
                         m\<lparr>m_selfCosts :=
                              add (m_selfCosts m) (sourceCodeLine line) (selfCost locationCost),
                           m_inclusiveCosts :=
                              add (m_inclusiveCosts m) (sourceCodeLine line)
                                (inclusiveCost locationCost)\<rparr>));
             m2 = m1\<lparr>m_validLineNumbers :=
                        insert (sourceCodeLine line) (m_validLineNumbers m1)\<rparr>
         in setDisassembly_loop out results lines (maxLineNumber1, minLineNumber1, m2)))"

definition setDisassembly ::
  "FileSystem \<Rightarrow> SourceCodeModel \<Rightarrow> DisassemblyOutput \<Rightarrow> CallerCalleeResults
     \<Rightarrow> failure + SourceCodeModel" where
  "setDisassembly fs m out results =
     (let m0 = m\<lparr>m_selfCosts := emptyCosts, m_inclusiveCosts := emptyCosts, m_numLines := 0\<rparr>
      in if mainSourceFileName out = [] then Inr m0
         else
           (case fs (m_sysroot m0 @ QDir_separator @ mainSourceFileName out) of
              None \<Rightarrow> Inr m0
            | Some sourceCode \<Rightarrow>
                (let m1 = m0\<lparr>m_validLineNumbers := {},
                             m_selfCosts := initializeCostsFrom (selfCosts results),
                             m_inclusiveCosts := initializeCostsFrom (inclusiveCosts results),
                             m_mainSourceFileName := mainSourceFileName out,
                             m_document := setPlainText sourceCode,
                             m_highlighterDefinition := mainSourceFileName out\<rparr>
                 in (case setDisassembly_loop out results (disassemblyLines out)
                            (0, INT_MAX, m1) of
                       (maxLineNumber, minLineNumber, m2) \<Rightarrow>
                         if \<not> minLineNumber > 0 then Inl AssertionFailed
                         else if \<not> minLineNumber < maxLineNumber then Inl AssertionFailed
                         else
                           (let m3 = m2\<lparr>m_startLine := minLineNumber - 2,
                                        m_lineOffset := minLineNumber - 1\<rparr>;
                                m4 = m3\<lparr>m_numLines := maxLineNumber - m_startLine m3\<rparr>
                            in Inr (m4\<lparr>m_document :=
                                         replaceLineUnderCursor (m_document m4) (m_startLine m4)
                                           (prettySymbol (disassemblySymbol out))\<rparr>))))))"

text \<open>
  The line numbers the loop does not skip: those of the lines of the main source file
  whose \<^verbatim>\<open>sourceCodeLine\<close> is not 0, in the order of the disassembly.
\<close>

definition mainFileLineNumbers :: "string \<Rightarrow> DisassemblyLine list \<Rightarrow> int list" where
  "mainFileLineNumbers name lines =
     map sourceCodeLine
       (filter (\<lambda>line. \<not> (sourceCodeLine line = 0 \<or> sourceFileName line \<noteq> name)) lines)"

subsection \<open>The main window\<close>

datatype Page = startPage | resultsPage

datatype Tab = summaryTab | otherTab nat

datatype Widget = openFileButton | resultsTabWidget

text \<open>
  The part of the window the lifecycle handlers touch. A \<open>visible\<close> field is what the last
  \<^verbatim>\<open>show()\<close> or \<^verbatim>\<open>hide()\<close> of the widget set; \<open>warnings\<close> collects what went to
  \<^verbatim>\<open>qWarning()\<close>.
\<close>

record MainWindow =
  windowTitle :: string
  mainPageStack_currentWidget :: Page
  resultsTabWidget_currentWidget :: Tab
  focusWidget :: "Widget option"
  openFileProgressBar_visible :: bool
  loadingResultsLabel_visible :: bool
  loadingResultsErrorLabel_visible :: bool
  loadingResultsErrorLabel_text :: string
  warnings :: "string list"

definition showLoadingResults :: "MainWindow \<Rightarrow> MainWindow" where
  "showLoadingResults w =
     w\<lparr>openFileProgressBar_visible := True,
       loadingResultsLabel_visible := True,
       loadingResultsErrorLabel_visible := False\<rparr>"

definition hideLoadingResults :: "MainWindow \<Rightarrow> MainWindow" where
  "hideLoadingResults w =
     w\<lparr>openFileProgressBar_visible := False,
       loadingResultsLabel_visible := False\<rparr>"

definition MainWindow_clear :: "MainWindow \<Rightarrow> MainWindow" where
  "MainWindow_clear w =
     (let w1 = w\<lparr>windowTitle := ''Hotspot''\<rparr>;
          w2 = hideLoadingResults w1;
          w3 = w2\<lparr>loadingResultsErrorLabel_visible := False\<rparr>
      in w3\<lparr>mainPageStack_currentWidget := startPage\<rparr>)"

text \<open>The slot connected to \<^verbatim>\<open>PerfParser::parsingFinished\<close>.\<close>

definition on_parsingFinished :: "MainWindow \<Rightarrow> MainWindow" where
  "on_parsingFinished w =
     (let w1 = w\<lparr>mainPageStack_currentWidget := resultsPage\<rparr>;
          w2 = w1\<lparr>resultsTabWidget_currentWidget := summaryTab\<rparr>;
          w3 = w2\<lparr>focusWidget := Some resultsTabWidget\<rparr>
      in hideLoadingResults w3)"

text \<open>The slot connected to \<^verbatim>\<open>PerfParser::parsingFailed\<close>.\<close>

definition on_parsingFailed :: "MainWindow \<Rightarrow> string \<Rightarrow> MainWindow" where
  "on_parsingFailed w errorMessage =
     (let w1 = w\<lparr>warnings := warnings w @ [errorMessage]\<rparr>;
          w2 = hideLoadingResults w1;
          w3 = w2\<lparr>loadingResultsErrorLabel_text := errorMessage\<rparr>
      in w3\<lparr>loadingResultsErrorLabel_visible := True\<rparr>)"

subsection \<open>Formatting a duration\<close>

text \<open>
  \<^verbatim>\<open>quint64\<close> values are natural numbers here: \<^verbatim>\<open>formatTimeString\<close> only divides and takes
  remainders, so nothing wraps, and every \<^verbatim>\<open>quint64\<close> is a natural number.
\<close>

definition digit :: "nat \<Rightarrow> char" where
  "digit d = ''0123456789'' ! d"

text \<open>\<^verbatim>\<open>QString::number\<close> on an unsigned value: its decimal digits.\<close>

fun number :: "nat \<Rightarrow> string" where
  "number n = (if n < 10 then [digit n] else number (n div 10) @ [digit (n mod 10)])"

declare number.simps [simp del]

text \<open>\<^verbatim>\<open>QString::rightJustified\<close> without truncation.\<close>

definition rightJustified :: "string \<Rightarrow> nat \<Rightarrow> char \<Rightarrow> string" where
  "rightJustified s width fill =
     (if length s < width then replicate (width - length s) fill @ s else s)"

definition format :: "nat \<Rightarrow> nat \<Rightarrow> string" where
  "format fragment precision = rightJustified (number fragment) precision (CHR ''0'')"

definition optional :: "nat \<Rightarrow> string" where
  "optional fragment = (if fragment > 0 then format fragment 2 @ '':'' else [])"

definition formatTimeString :: "nat \<Rightarrow> string" where
  "formatTimeString nanoseconds =
     (let totalSeconds = nanoseconds div 1000000000;
          days = totalSeconds div 60 div 60 div 24;
          hours = (totalSeconds div 60 div 60) mod 24;
          minutes = (totalSeconds div 60) mod 60;
          seconds = totalSeconds mod 60;
          milliseconds = (nanoseconds div 1000000) mod 1000
      in optional days @ optional hours @ optional minutes
           @ format seconds 2 @ ''.'' @ format milliseconds 3 @ ''s'')"

subsection \<open>A worked example\<close>

text \<open>
  A six-line source file under the sysroot \<^verbatim>\<open>/usr/src\<close>, the disassembly of \<^verbatim>\<open>main\<close> with
  instructions on lines 4 and 5 of it, and one cost type with samples on two addresses.
\<close>

definition exampleSource :: string where
  "exampleSource =
     ''// demo'' @ [CHR 0x0A] @ ''int main()'' @ [CHR 0x0A] @ ''{'' @ [CHR 0x0A]
       @ ''  work();'' @ [CHR 0x0A] @ ''  return 0;'' @ [CHR 0x0A] @ ''}''"

definition exampleFileSystem :: FileSystem where
  "exampleFileSystem = [''/usr/src/main.cpp'' \<mapsto> exampleSource]"

definition exampleSymbol :: Symbol where
  "exampleSymbol = \<lparr>symbol = ''main'', binary = ''demo'', prettySymbol = ''main()''\<rparr>"

definition exampleOutput :: DisassemblyOutput where
  "exampleOutput =
     \<lparr>mainSourceFileName = ''main.cpp'',
      disassemblyLines =
        [\<lparr>addr = 16, sourceFileName = ''main.cpp'', sourceCodeLine = 4\<rparr>,
         \<lparr>addr = 20, sourceFileName = ''other.h'', sourceCodeLine = 9\<rparr>,
         \<lparr>addr = 24, sourceFileName = ''main.cpp'', sourceCodeLine = 0\<rparr>,
         \<lparr>addr = 28, sourceFileName = ''main.cpp'', sourceCodeLine = 5\<rparr>,
         \<lparr>addr = 32, sourceFileName = ''main.cpp'', sourceCodeLine = 4\<rparr>],
      disassemblySymbol = exampleSymbol\<rparr>"

definition exampleResults :: CallerCalleeResults where
  "exampleResults =
     \<lparr>entries =
        [exampleSymbol \<mapsto>
           \<lparr>offsetMap = [16 \<mapsto> \<lparr>selfCost = [7], inclusiveCost = [9]\<rparr>,
                          28 \<mapsto> \<lparr>selfCost = [1], inclusiveCost = [2]\<rparr>]\<rparr>],
      selfCosts = \<lparr>m_typeNames = [''cycles''], m_costs = (\<lambda>t i. 0), m_totalCosts = (\<lambda>t. 8)\<rparr>,
      inclusiveCosts =
        \<lparr>m_typeNames = [''cycles''], m_costs = (\<lambda>t i. 0), m_totalCosts = (\<lambda>t. 11)\<rparr>\<rparr>"

text \<open>A freshly constructed model after \<^verbatim>\<open>setSysroot\<close>.\<close>

definition initialModel :: SourceCodeModel where
  "initialModel =
     \<lparr>m_document = emptyDocument, m_highlighterDefinition = [],
      m_selfCosts = emptyCosts, m_inclusiveCosts = emptyCosts, m_validLineNumbers = {},
      m_numLines = 0, m_lineOffset = 0, m_startLine = 0, m_highlightLine = 0,
      m_mainSourceFileName = [], m_sysroot = ''/usr/src''\<rparr>"

text \<open>The model that \<^verbatim>\<open>setDisassembly\<close> makes of the example.\<close>

definition exampleModel :: SourceCodeModel where
  "exampleModel =
     \<lparr>m_document =
        [''// demo'', ''int main()'', ''main()'', ''  work();'', ''  return 0;'', ''}''],
      m_highlighterDefinition = ''main.cpp'',
      m_selfCosts = add (add (initializeCostsFrom (selfCosts exampleResults)) 4 [7]) 5 [1],
      m_inclusiveCosts =
        add (add (initializeCostsFrom (inclusiveCosts exampleResults)) 4 [9]) 5 [2],
      m_validLineNumbers = {4, 5},
      m_numLines = 3, m_lineOffset = 3, m_startLine = 2, m_highlightLine = 0,
      m_mainSourceFileName = ''main.cpp'', m_sysroot = ''/usr/src''\<rparr>"

text \<open>The same disassembly with a first line whose line number is negative.\<close>

definition negativeLineOutput :: DisassemblyOutput where
  "negativeLineOutput =
     \<lparr>mainSourceFileName = ''main.cpp'',
      disassemblyLines =
        [\<lparr>addr = 16, sourceFileName = ''main.cpp'', sourceCodeLine = - 5\<rparr>,
         \<lparr>addr = 20, sourceFileName = ''main.cpp'', sourceCodeLine = 3\<rparr>,
         \<lparr>addr = 24, sourceFileName = ''main.cpp'', sourceCodeLine = 7\<rparr>],
      disassemblySymbol = exampleSymbol\<rparr>"

text \<open>The example disassembly cut down to its first line.\<close>

definition singleLineOutput :: DisassemblyOutput where
  "singleLineOutput =
     \<lparr>mainSourceFileName = ''main.cpp'',
      disassemblyLines = [\<lparr>addr = 16, sourceFileName = ''main.cpp'', sourceCodeLine = 4\<rparr>],
      disassemblySymbol = exampleSymbol\<rparr>"

section \<open>Properties\<close>

subsection \<open>Auxiliary facts\<close>

lemma hasIndex_bounds:
  "hasIndex m r c (parent i) \<longleftrightarrow>
     0 \<le> r \<and> r < m_numLines m \<and> 0 \<le> c
       \<and> c < COLUMN_COUNT + numTypes (m_selfCosts m) + numTypes (m_inclusiveCosts m)"
  by (auto simp: hasIndex_def parent_def rootIndex_def isValid_def rowCount_def columnCount_def)

lemma exampleModel_counts:
  "m_numLines exampleModel = 3" "m_lineOffset exampleModel = 3"
  "numTypes (m_selfCosts exampleModel) = 1" "numTypes (m_inclusiveCosts exampleModel) = 1"
  by (simp_all add: exampleModel_def exampleResults_def numTypes_def add_def
        initializeCostsFrom_def)

lemma exampleModel_costs:
  "cost (m_selfCosts exampleModel) 0 4 = 7" "cost (m_inclusiveCosts exampleModel) 0 4 = 9"
  by (simp_all add: exampleModel_def exampleResults_def numTypes_def add_def
        initializeCostsFrom_def cost_def)


lemma example_opens:
  "exampleFileSystem (m_sysroot initialModel @ QDir_separator @ ''main.cpp'')
     = Some exampleSource"
  by (simp add: exampleFileSystem_def initialModel_def QDir_separator_def)

lemma example_loaded:
  "setDisassembly exampleFileSystem initialModel exampleOutput exampleResults = Inr exampleModel"
  by (auto simp: setDisassembly_def Let_def exampleFileSystem_def initialModel_def
        exampleOutput_def exampleResults_def exampleModel_def exampleSymbol_def
        exampleSource_def QDir_separator_def INT_MAX_def replaceLineUnderCursor_def
        emptyCosts_def emptyDocument_def)

lemma setDisassembly_loop_result:
  "setDisassembly_loop out results lines (a, b, m) = (maxLineNumber, minLineNumber, m') \<Longrightarrow>
     a \<le> maxLineNumber
     \<and> (\<forall>n \<in> set (mainFileLineNumbers (mainSourceFileName out) lines). n \<le> maxLineNumber)
     \<and> (maxLineNumber = a
          \<or> maxLineNumber \<in> set (mainFileLineNumbers (mainSourceFileName out) lines))
     \<and> minLineNumber \<le> b
     \<and> (\<forall>n \<in> set (mainFileLineNumbers (mainSourceFileName out) lines). minLineNumber \<le> n)
     \<and> (minLineNumber = b
          \<or> minLineNumber \<in> set (mainFileLineNumbers (mainSourceFileName out) lines))
     \<and> m_validLineNumbers m'
          = m_validLineNumbers m \<union> set (mainFileLineNumbers (mainSourceFileName out) lines)"
proof (induction lines arbitrary: a b m)
  case Nil
  then show ?case by (simp add: mainFileLineNumbers_def)
next
  case (Cons line lines)
  show ?case
  proof (cases "sourceCodeLine line = 0 \<or> sourceFileName line \<noteq> mainSourceFileName out")
    case True
    with Cons.prems have "setDisassembly_loop out results lines (a, b, m)
        = (maxLineNumber, minLineNumber, m')"
      by simp
    moreover have "mainFileLineNumbers (mainSourceFileName out) (line # lines)
        = mainFileLineNumbers (mainSourceFileName out) lines"
      using True by (auto simp: mainFileLineNumbers_def)
    ultimately show ?thesis
      using Cons.IH [of a b m] by simp
  next
    case False
    define a1 where
      "a1 = (if sourceCodeLine line > a then sourceCodeLine line else a)"
    define b1 where
      "b1 = (if sourceCodeLine line < b then sourceCodeLine line else b)"
    define m0 where
      "m0 = (case entries results (disassemblySymbol out) of
               None \<Rightarrow> m
             | Some entry \<Rightarrow>
                 (case offsetMap entry (addr line) of
                    None \<Rightarrow> m
                  | Some locationCost \<Rightarrow>
                      m\<lparr>m_selfCosts :=
                           add (m_selfCosts m) (sourceCodeLine line) (selfCost locationCost),
                        m_inclusiveCosts :=
                           add (m_inclusiveCosts m) (sourceCodeLine line)
                             (inclusiveCost locationCost)\<rparr>))"
    define m1 where
      "m1 = m0\<lparr>m_validLineNumbers := insert (sourceCodeLine line) (m_validLineNumbers m0)\<rparr>"
    have step: "setDisassembly_loop out results lines (a1, b1, m1)
               = (maxLineNumber, minLineNumber, m')"
      using Cons.prems False by (simp add: Let_def a1_def b1_def m0_def m1_def)
    have v0: "m_validLineNumbers m0 = m_validLineNumbers m"
      by (simp add: m0_def split: option.splits)
    have v1: "m_validLineNumbers m1 = insert (sourceCodeLine line) (m_validLineNumbers m)"
      by (simp add: m1_def v0)
    have ns: "mainFileLineNumbers (mainSourceFileName out) (line # lines)
        = sourceCodeLine line # mainFileLineNumbers (mainSourceFileName out) lines"
      using False by (simp add: mainFileLineNumbers_def)
    from Cons.IH [OF step] show ?thesis
      unfolding ns v1 by (auto simp: a1_def b1_def split: if_splits)
  qed
qed


lemma setDisassembly_opened:
  assumes "mainSourceFileName out \<noteq> []"
    and "fs (m_sysroot m @ QDir_separator @ mainSourceFileName out) = Some sourceCode"
  shows "\<exists>maxLineNumber minLineNumber m1 m2.
      setDisassembly_loop out results (disassemblyLines out) (0, INT_MAX, m1)
        = (maxLineNumber, minLineNumber, m2)
    \<and> m_validLineNumbers m1 = {}
    \<and> setDisassembly fs m out results =
      (if 0 < minLineNumber \<and> minLineNumber < maxLineNumber
       then Inr (m2\<lparr>m_startLine := minLineNumber - 2, m_lineOffset := minLineNumber - 1,
                   m_numLines := maxLineNumber - (minLineNumber - 2),
                   m_document := replaceLineUnderCursor (m_document m2) (minLineNumber - 2)
                                  (prettySymbol (disassemblySymbol out))\<rparr>)
       else Inl AssertionFailed)"
proof -
  define m1 where "m1 =
        m\<lparr>m_selfCosts := emptyCosts, m_inclusiveCosts := emptyCosts, m_numLines := 0,
          m_validLineNumbers := {},
          m_selfCosts := initializeCostsFrom (selfCosts results),
          m_inclusiveCosts := initializeCostsFrom (inclusiveCosts results),
          m_mainSourceFileName := mainSourceFileName out,
          m_document := setPlainText sourceCode,
          m_highlighterDefinition := mainSourceFileName out\<rparr>"
  obtain a b m2 where loop:
    "setDisassembly_loop out results (disassemblyLines out) (0, INT_MAX, m1) = (a, b, m2)"
    using prod_cases3 by blast
  have "setDisassembly fs m out results =
      (if 0 < b \<and> b < a
       then Inr (m2\<lparr>m_startLine := b - 2, m_lineOffset := b - 1,
                   m_numLines := a - (b - 2),
                   m_document := replaceLineUnderCursor (m_document m2) (b - 2)
                                  (prettySymbol (disassemblySymbol out))\<rparr>)
       else Inl AssertionFailed)"
    using assms loop unfolding m1_def by (simp add: setDisassembly_def Let_def)
  moreover have "m_validLineNumbers m1 = {}"
    by (simp add: m1_def)
  ultimately show ?thesis
    using loop by blast
qed

lemma assertions_iff:
  assumes loop: "setDisassembly_loop out results lines (0, INT_MAX, m)
                   = (maxLineNumber, minLineNumber, m')"
    and range: "\<forall>line \<in> set lines. is_int (sourceCodeLine line)"
  shows "0 < minLineNumber \<and> minLineNumber < maxLineNumber \<longleftrightarrow>
      (\<exists>l1 \<in> set lines. \<exists>l2 \<in> set lines.
          sourceFileName l1 = mainSourceFileName out \<and> sourceFileName l2 = mainSourceFileName out
        \<and> 0 < sourceCodeLine l1 \<and> 0 < sourceCodeLine l2
        \<and> sourceCodeLine l1 \<noteq> sourceCodeLine l2)
      \<and> (\<forall>l \<in> set lines. sourceFileName l = mainSourceFileName out \<longrightarrow> 0 \<le> sourceCodeLine l)"
    (is "?A \<longleftrightarrow> ?B")
proof -
  let ?ns = "mainFileLineNumbers (mainSourceFileName out) lines"
  have mem: "n \<in> set ?ns \<longleftrightarrow>
      (\<exists>l \<in> set lines. sourceFileName l = mainSourceFileName out \<and> sourceCodeLine l \<noteq> 0
         \<and> n = sourceCodeLine l)" for n
    by (auto simp: mainFileLineNumbers_def)
  have le_max: "n \<le> INT_MAX" if "n \<in> set ?ns" for n
    using that range by (auto simp: mem is_int_def)
  note r = setDisassembly_loop_result [OF loop]
  show ?thesis
  proof
    assume a: ?A
    have "maxLineNumber \<in> set ?ns" using r a by auto
    moreover have "minLineNumber \<in> set ?ns"
    proof (rule ccontr)
      assume "minLineNumber \<notin> set ?ns"
      with r have "minLineNumber = INT_MAX" by auto
      with a le_max [OF \<open>maxLineNumber \<in> set ?ns\<close>] show False by simp
    qed
    moreover have pos: "\<forall>n \<in> set ?ns. 0 < n" using r a by fastforce
    ultimately obtain l1 l2 where l: "l1 \<in> set lines" "l2 \<in> set lines"
      "sourceFileName l1 = mainSourceFileName out" "sourceFileName l2 = mainSourceFileName out"
      "minLineNumber = sourceCodeLine l1" "maxLineNumber = sourceCodeLine l2"
      unfolding mem by blast
    have "0 \<le> sourceCodeLine l"
      if "l \<in> set lines" "sourceFileName l = mainSourceFileName out" for l
    proof (cases "sourceCodeLine l = 0")
      case False
      with that have "sourceCodeLine l \<in> set ?ns" unfolding mem by blast
      with pos show ?thesis by fastforce
    qed simp
    moreover have "0 < sourceCodeLine l1 \<and> 0 < sourceCodeLine l2
        \<and> sourceCodeLine l1 \<noteq> sourceCodeLine l2"
      using a l(5,6) by simp
    ultimately show ?B
      using l(1-4) by blast
  next
    assume b: ?B
    then obtain l1 l2 where l: "l1 \<in> set lines" "l2 \<in> set lines"
      "sourceFileName l1 = mainSourceFileName out" "sourceFileName l2 = mainSourceFileName out"
      "0 < sourceCodeLine l1" "0 < sourceCodeLine l2" "sourceCodeLine l1 \<noteq> sourceCodeLine l2"
      by blast
    have n1: "sourceCodeLine l1 \<in> set ?ns" and n2: "sourceCodeLine l2 \<in> set ?ns"
      using l unfolding mem by auto
    have pos: "0 < n" if "n \<in> set ?ns" for n
      using that b unfolding mem by force
    have "0 < minLineNumber"
      using r pos by (auto simp: INT_MAX_def)
    moreover have "minLineNumber < maxLineNumber"
    proof -
      have "minLineNumber \<le> sourceCodeLine l1" "minLineNumber \<le> sourceCodeLine l2"
        "sourceCodeLine l1 \<le> maxLineNumber" "sourceCodeLine l2 \<le> maxLineNumber"
        using r n1 n2 by auto
      with l(7) show ?thesis by linarith
    qed
    ultimately show ?A by simp
  qed
qed


lemma assertions_fail_shape:
  assumes loop: "setDisassembly_loop out results lines (0, INT_MAX, m)
                   = (maxLineNumber, minLineNumber, m')"
    and nonneg: "\<forall>l \<in> set lines. sourceFileName l = mainSourceFileName out \<longrightarrow> 0 \<le> sourceCodeLine l"
    and one: "\<not> (\<exists>l1 \<in> set lines. \<exists>l2 \<in> set lines.
          sourceFileName l1 = mainSourceFileName out \<and> sourceFileName l2 = mainSourceFileName out
        \<and> 0 < sourceCodeLine l1 \<and> 0 < sourceCodeLine l2
        \<and> sourceCodeLine l1 \<noteq> sourceCodeLine l2)"
  shows "minLineNumber = INT_MAX \<or> minLineNumber = maxLineNumber"
proof (rule ccontr)
  let ?ns = "mainFileLineNumbers (mainSourceFileName out) lines"
  assume neg: "\<not> (minLineNumber = INT_MAX \<or> minLineNumber = maxLineNumber)"
  have mem: "n \<in> set ?ns \<longleftrightarrow>
      (\<exists>l \<in> set lines. sourceFileName l = mainSourceFileName out \<and> sourceCodeLine l \<noteq> 0
         \<and> n = sourceCodeLine l)" for n
    by (auto simp: mainFileLineNumbers_def)
  note r = setDisassembly_loop_result [OF loop]
  from r neg have "minLineNumber \<in> set ?ns" by auto
  then obtain l1 where l1: "l1 \<in> set lines" "sourceFileName l1 = mainSourceFileName out"
    "sourceCodeLine l1 \<noteq> 0" "minLineNumber = sourceCodeLine l1"
    unfolding mem by blast
  with nonneg have p1: "0 < sourceCodeLine l1" by force
  have "sourceCodeLine l1 \<in> set ?ns"
    using l1 unfolding mem by blast
  with r have "sourceCodeLine l1 \<le> maxLineNumber"
    by blast
  with p1 r have "maxLineNumber \<in> set ?ns" by auto
  then obtain l2 where l2: "l2 \<in> set lines" "sourceFileName l2 = mainSourceFileName out"
    "sourceCodeLine l2 \<noteq> 0" "maxLineNumber = sourceCodeLine l2"
    unfolding mem by blast
  with nonneg have p2: "0 < sourceCodeLine l2" by force
  from neg l1(4) l2(4) have "sourceCodeLine l1 \<noteq> sourceCodeLine l2" by simp
  with one l1 l2 p1 p2 show False by blast
qed

lemma digit_0: "digit 0 = CHR ''0''"
  by (simp add: digit_def)

lemma number_1: "n < 10 \<Longrightarrow> number n = [digit n]"
  by (simp add: number.simps [of n])

lemma number_2: "10 \<le> n \<Longrightarrow> n < 100 \<Longrightarrow> number n = [digit (n div 10), digit (n mod 10)]"
  by (simp add: number.simps [of n] number_1)

lemma number_3:
  "100 \<le> n \<Longrightarrow> n < 1000 \<Longrightarrow>
     number n = [digit (n div 100), digit (n div 10 mod 10), digit (n mod 10)]"
  by (simp add: number.simps [of n] number_2 div_mult2_eq [symmetric])

lemma format_2:
  assumes "n < 100"
  shows "format n 2 = [digit (n div 10), digit (n mod 10)]"
proof (cases "n < 10")
  case True
  then show ?thesis
    by (simp add: format_def rightJustified_def number_1 digit_0)
next
  case False
  with assms show ?thesis
    by (simp add: format_def rightJustified_def number_2)
qed

lemma format_3:
  assumes "n < 1000"
  shows "format n 3 = [digit (n div 100), digit (n div 10 mod 10), digit (n mod 10)]"
proof -
  consider "n < 10" | "10 \<le> n" "n < 100" | "100 \<le> n"
    by linarith
  then show ?thesis
  proof cases
    case 1
    then show ?thesis
      by (simp add: format_def rightJustified_def number_1 digit_0 numeral_2_eq_2)
  next
    case 2
    then show ?thesis
      by (simp add: format_def rightJustified_def number_2 digit_0)
  next
    case 3
    with assms show ?thesis
      by (simp add: format_def rightJustified_def number_3)
  qed
qed

lemma formatTimeString_under_minute:
  assumes "nanoseconds < 60000000000"
  shows "formatTimeString nanoseconds =
     [digit (nanoseconds div 1000000000 div 10), digit (nanoseconds div 1000000000 mod 10),
      CHR ''.'',
      digit (nanoseconds div 1000000 mod 1000 div 100),
      digit (nanoseconds div 1000000 mod 1000 div 10 mod 10),
      digit (nanoseconds div 1000000 mod 1000 mod 10),
      CHR ''s'']"
proof -
  have s: "nanoseconds div 1000000000 < 60" using assms by simp
  then have z: "nanoseconds div 1000000000 div 60 = 0" by simp
  have f2: "format (nanoseconds div 1000000000) 2
      = [digit (nanoseconds div 1000000000 div 10), digit (nanoseconds div 1000000000 mod 10)]"
    using s by (intro format_2) simp
  have f3: "format (nanoseconds div 1000000 mod 1000) 3 =
     [digit (nanoseconds div 1000000 mod 1000 div 100),
      digit (nanoseconds div 1000000 mod 1000 div 10 mod 10),
      digit (nanoseconds div 1000000 mod 1000 mod 10)]"
    by (intro format_3) simp
  show ?thesis
    using s by (simp add: formatTimeString_def Let_def optional_def z f2 f3)
qed


subsection \<open>The claims\<close>

text \<open>
  C1. For every index that \<^verbatim>\<open>hasIndex\<close> accepts (so \<open>0 \<le> row < rowCount()\<close>), \<^verbatim>\<open>data\<close> is a
  re-indexing: under \<^verbatim>\<open>LineNumberRole\<close>, and under \<^verbatim>\<open>DisplayRole\<close> on the line number
  column, it returns \<open>row + m_lineOffset\<close>, which is what \<^verbatim>\<open>lineForIndex\<close> returns; on a
  cost column \<open>c \<ge> COLUMN_COUNT\<close> under \<^verbatim>\<open>CostRole\<close> it returns the self cost of type
  \<open>c - COLUMN_COUNT\<close> at that line when \<open>c - COLUMN_COUNT\<close> is below the number of self
  cost types, and otherwise the inclusive cost of type
  \<open>c - COLUMN_COUNT - numTypes\<close>, which is then a type of the inclusive table: the self
  cost columns come first.
\<close>

theorem data_is_reindexing:
  assumes "hasIndex m (row index) (column index) (parent index)"
  shows "0 \<le> row index \<and> row index < rowCount m rootIndex
    \<and> data m index LineNumberRole = VInt (row index + m_lineOffset m)
    \<and> lineForIndex m index = row index + m_lineOffset m
    \<and> (column index = SourceCodeLineNumber \<longrightarrow>
          data m index DisplayRole = VInt (row index + m_lineOffset m))
    \<and> (column index \<ge> COLUMN_COUNT \<longrightarrow>
          (if column index - COLUMN_COUNT < numTypes (m_selfCosts m)
           then 0 \<le> column index - COLUMN_COUNT
              \<and> data m index CostRole =
                  VCost (cost (m_selfCosts m) (column index - COLUMN_COUNT)
                           (row index + m_lineOffset m))
           else 0 \<le> column index - COLUMN_COUNT - numTypes (m_selfCosts m)
              \<and> column index - COLUMN_COUNT - numTypes (m_selfCosts m)
                    < numTypes (m_inclusiveCosts m)
              \<and> data m index CostRole =
                  VCost (cost (m_inclusiveCosts m)
                           (column index - COLUMN_COUNT - numTypes (m_selfCosts m))
                           (row index + m_lineOffset m))))"
  using assms unfolding hasIndex_bounds
  by (auto simp: data_def hasIndex_bounds lineForIndex_def rowCount_def rootIndex_def isValid_def
        costVariant_def COLUMN_COUNT_def SourceCodeColumn_def SourceCodeLineNumber_def Let_def)

theorem data_is_reindexing_witness:
  "hasIndex exampleModel 1 1 rootIndex \<and> hasIndex exampleModel 1 2 rootIndex
   \<and> hasIndex exampleModel 1 3 rootIndex
   \<and> data exampleModel \<lparr>row = 1, column = 1, hasModel = True\<rparr> LineNumberRole = VInt 4
   \<and> lineForIndex exampleModel \<lparr>row = 1, column = 1, hasModel = True\<rparr> = 4
   \<and> data exampleModel \<lparr>row = 1, column = 1, hasModel = True\<rparr> DisplayRole = VInt 4
   \<and> data exampleModel \<lparr>row = 1, column = 2, hasModel = True\<rparr> CostRole = VCost 7
   \<and> data exampleModel \<lparr>row = 1, column = 3, hasModel = True\<rparr> CostRole = VCost 9"
  using data_is_reindexing [of exampleModel "\<lparr>row = 1, column = 1, hasModel = True\<rparr>"]
    data_is_reindexing [of exampleModel "\<lparr>row = 1, column = 2, hasModel = True\<rparr>"]
    data_is_reindexing [of exampleModel "\<lparr>row = 1, column = 3, hasModel = True\<rparr>"]
  by (simp add: hasIndex_bounds [of _ _ _ undefined, unfolded parent_def] parent_def
        exampleModel_counts exampleModel_costs
        COLUMN_COUNT_def SourceCodeLineNumber_def)

text \<open>
  C2. When the main source file name is empty, or the file under the sysroot cannot be
  opened, \<^verbatim>\<open>setDisassembly\<close> returns a model with \<open>m_numLines = 0\<close> and both cost tables
  empty, so the root has no rows, and the document, the valid line numbers and the main
  source file name are the ones from before the call.
\<close>

theorem setDisassembly_early_return:
  assumes "mainSourceFileName out = []
     \<or> fs (m_sysroot m @ QDir_separator @ mainSourceFileName out) = None"
  shows "\<exists>m'. setDisassembly fs m out results = Inr m'
     \<and> m' = m\<lparr>m_selfCosts := emptyCosts, m_inclusiveCosts := emptyCosts, m_numLines := 0\<rparr>
     \<and> m_numLines m' = 0 \<and> m_selfCosts m' = emptyCosts \<and> m_inclusiveCosts m' = emptyCosts
     \<and> rowCount m' rootIndex = 0
     \<and> m_document m' = m_document m
     \<and> m_validLineNumbers m' = m_validLineNumbers m
     \<and> m_mainSourceFileName m' = m_mainSourceFileName m"
  using assms
  by (auto simp: setDisassembly_def Let_def rowCount_def)

theorem setDisassembly_early_return_witness:
  "mainSourceFileName (exampleOutput\<lparr>mainSourceFileName := []\<rparr>) = []
   \<and> exampleFileSystem (m_sysroot exampleModel @ QDir_separator @ ''missing.cpp'') = None
   \<and> setDisassembly exampleFileSystem exampleModel
        (exampleOutput\<lparr>mainSourceFileName := []\<rparr>) exampleResults
      = Inr (exampleModel\<lparr>m_selfCosts := emptyCosts, m_inclusiveCosts := emptyCosts,
               m_numLines := 0\<rparr>)
   \<and> setDisassembly exampleFileSystem exampleModel
        (exampleOutput\<lparr>mainSourceFileName := ''missing.cpp''\<rparr>) exampleResults
      = Inr (exampleModel\<lparr>m_selfCosts := emptyCosts, m_inclusiveCosts := emptyCosts,
               m_numLines := 0\<rparr>)"
  using setDisassembly_early_return [of "exampleOutput\<lparr>mainSourceFileName := []\<rparr>"
      exampleFileSystem exampleModel exampleResults]
    setDisassembly_early_return [of "exampleOutput\<lparr>mainSourceFileName := ''missing.cpp''\<rparr>"
      exampleFileSystem exampleModel exampleResults]
  by (simp add: exampleFileSystem_def exampleModel_def QDir_separator_def)

text \<open>
  C3. The handler of \<^verbatim>\<open>parsingFailed(errorMessage)\<close> sets the text of the error label to
  \<open>errorMessage\<close> and shows the label, hides the progress bar and the loading label, and
  leaves the current widget of the main page stack as it was.
\<close>

theorem parsingFailed_shows_error:
  "loadingResultsErrorLabel_text (on_parsingFailed w errorMessage) = errorMessage
   \<and> loadingResultsErrorLabel_visible (on_parsingFailed w errorMessage)
   \<and> \<not> openFileProgressBar_visible (on_parsingFailed w errorMessage)
   \<and> \<not> loadingResultsLabel_visible (on_parsingFailed w errorMessage)
   \<and> mainPageStack_currentWidget (on_parsingFailed w errorMessage)
       = mainPageStack_currentWidget w"
  by (simp add: on_parsingFailed_def hideLoadingResults_def Let_def)

text \<open>
  C4 (as the code has it). When the source file opens and every \<^verbatim>\<open>sourceCodeLine\<close> is an
  \<^verbatim>\<open>int\<close>, the two assertions after the loop hold exactly when the disassembly has two
  entries of the main source file with distinct positive line numbers and no entry of the
  main source file with a negative line number. Without a negative line number, fewer than
  two distinct line numbers make an assertion fail with \<^verbatim>\<open>minLineNumber\<close> still
  \<^verbatim>\<open>INT_MAX\<close> or equal to \<^verbatim>\<open>maxLineNumber\<close>.
\<close>

theorem setDisassembly_assertions_iff:
  assumes "mainSourceFileName out \<noteq> []"
    and "fs (m_sysroot m @ QDir_separator @ mainSourceFileName out) = Some sourceCode"
    and "\<forall>line \<in> set (disassemblyLines out). is_int (sourceCodeLine line)"
  shows
   "(\<forall>m1 maxLineNumber minLineNumber m2.
       setDisassembly_loop out results (disassemblyLines out) (0, INT_MAX, m1)
         = (maxLineNumber, minLineNumber, m2) \<longrightarrow>
       (0 < minLineNumber \<and> minLineNumber < maxLineNumber \<longleftrightarrow>
          (\<exists>l1 \<in> set (disassemblyLines out). \<exists>l2 \<in> set (disassemblyLines out).
              sourceFileName l1 = mainSourceFileName out
            \<and> sourceFileName l2 = mainSourceFileName out
            \<and> 0 < sourceCodeLine l1 \<and> 0 < sourceCodeLine l2
            \<and> sourceCodeLine l1 \<noteq> sourceCodeLine l2)
          \<and> (\<forall>l \<in> set (disassemblyLines out).
                sourceFileName l = mainSourceFileName out \<longrightarrow> 0 \<le> sourceCodeLine l)))
    \<and> (setDisassembly fs m out results \<noteq> Inl AssertionFailed \<longleftrightarrow>
          (\<exists>l1 \<in> set (disassemblyLines out). \<exists>l2 \<in> set (disassemblyLines out).
              sourceFileName l1 = mainSourceFileName out
            \<and> sourceFileName l2 = mainSourceFileName out
            \<and> 0 < sourceCodeLine l1 \<and> 0 < sourceCodeLine l2
            \<and> sourceCodeLine l1 \<noteq> sourceCodeLine l2)
          \<and> (\<forall>l \<in> set (disassemblyLines out).
                sourceFileName l = mainSourceFileName out \<longrightarrow> 0 \<le> sourceCodeLine l))
    \<and> ((\<forall>l \<in> set (disassemblyLines out).
            sourceFileName l = mainSourceFileName out \<longrightarrow> 0 \<le> sourceCodeLine l)
        \<and> \<not> (\<exists>l1 \<in> set (disassemblyLines out). \<exists>l2 \<in> set (disassemblyLines out).
              sourceFileName l1 = mainSourceFileName out
            \<and> sourceFileName l2 = mainSourceFileName out
            \<and> 0 < sourceCodeLine l1 \<and> 0 < sourceCodeLine l2
            \<and> sourceCodeLine l1 \<noteq> sourceCodeLine l2) \<longrightarrow>
        setDisassembly fs m out results = Inl AssertionFailed
        \<and> (\<forall>m1 maxLineNumber minLineNumber m2.
              setDisassembly_loop out results (disassemblyLines out) (0, INT_MAX, m1)
                = (maxLineNumber, minLineNumber, m2) \<longrightarrow>
              minLineNumber = INT_MAX \<or> minLineNumber = maxLineNumber))"
    (is "?loop \<and> (?ok \<longleftrightarrow> ?two \<and> ?nonneg) \<and> (?nonneg \<and> \<not> ?two \<longrightarrow> ?fails \<and> ?shape)")
proof -
  have loop: ?loop
    using assertions_iff [OF _ assms(3)] by blast
  from setDisassembly_opened [of out fs m sourceCode results, OF assms(1,2)]
  obtain maxLineNumber minLineNumber m1 m2 where
    run: "setDisassembly_loop out results (disassemblyLines out) (0, INT_MAX, m1)
      = (maxLineNumber, minLineNumber, m2)"
    and res: "setDisassembly fs m out results =
      (if 0 < minLineNumber \<and> minLineNumber < maxLineNumber
       then Inr (m2\<lparr>m_startLine := minLineNumber - 2, m_lineOffset := minLineNumber - 1,
                   m_numLines := maxLineNumber - (minLineNumber - 2),
                   m_document := replaceLineUnderCursor (m_document m2) (minLineNumber - 2)
                                  (prettySymbol (disassemblySymbol out))\<rparr>)
       else Inl AssertionFailed)"
    by blast
  have "?ok \<longleftrightarrow> 0 < minLineNumber \<and> minLineNumber < maxLineNumber"
    using res by simp
  also have "\<dots> \<longleftrightarrow> ?two \<and> ?nonneg"
    by (rule assertions_iff [OF run assms(3)])
  finally have ok: "?ok \<longleftrightarrow> ?two \<and> ?nonneg" .
  have shape: ?shape if "?nonneg" "\<not> ?two"
    using assertions_fail_shape [OF _ that] by blast
  from loop ok shape show ?thesis
    by blast
qed

theorem setDisassembly_assertions_iff_witness:
  "mainSourceFileName exampleOutput \<noteq> []
   \<and> exampleFileSystem (m_sysroot initialModel @ QDir_separator
        @ mainSourceFileName exampleOutput) = Some exampleSource
   \<and> setDisassembly exampleFileSystem initialModel exampleOutput exampleResults
       \<noteq> Inl AssertionFailed
   \<and> setDisassembly exampleFileSystem initialModel singleLineOutput exampleResults
       = Inl AssertionFailed"
proof -
  have o: "mainSourceFileName exampleOutput \<noteq> []"
    "exampleFileSystem (m_sysroot initialModel @ QDir_separator
        @ mainSourceFileName exampleOutput) = Some exampleSource"
    "mainSourceFileName singleLineOutput \<noteq> []"
    "exampleFileSystem (m_sysroot initialModel @ QDir_separator
        @ mainSourceFileName singleLineOutput) = Some exampleSource"
    using example_opens by (simp_all add: exampleOutput_def singleLineOutput_def)
  have r: "\<forall>line \<in> set (disassemblyLines exampleOutput). is_int (sourceCodeLine line)"
    "\<forall>line \<in> set (disassemblyLines singleLineOutput). is_int (sourceCodeLine line)"
    by (simp_all add: exampleOutput_def singleLineOutput_def is_int_def INT_MIN_def INT_MAX_def)
  have two: "\<exists>l1 \<in> set (disassemblyLines exampleOutput).
      \<exists>l2 \<in> set (disassemblyLines exampleOutput).
        sourceFileName l1 = mainSourceFileName exampleOutput
      \<and> sourceFileName l2 = mainSourceFileName exampleOutput
      \<and> 0 < sourceCodeLine l1 \<and> 0 < sourceCodeLine l2
      \<and> sourceCodeLine l1 \<noteq> sourceCodeLine l2"
    by (simp add: exampleOutput_def)
  have nonneg: "\<forall>l \<in> set (disassemblyLines exampleOutput).
      sourceFileName l = mainSourceFileName exampleOutput \<longrightarrow> 0 \<le> sourceCodeLine l"
    "\<forall>l \<in> set (disassemblyLines singleLineOutput).
      sourceFileName l = mainSourceFileName singleLineOutput \<longrightarrow> 0 \<le> sourceCodeLine l"
    by (simp_all add: exampleOutput_def singleLineOutput_def)
  have one: "\<not> (\<exists>l1 \<in> set (disassemblyLines singleLineOutput).
      \<exists>l2 \<in> set (disassemblyLines singleLineOutput).
        sourceFileName l1 = mainSourceFileName singleLineOutput
      \<and> sourceFileName l2 = mainSourceFileName singleLineOutput
      \<and> 0 < sourceCodeLine l1 \<and> 0 < sourceCodeLine l2
      \<and> sourceCodeLine l1 \<noteq> sourceCodeLine l2)"
    by (simp add: singleLineOutput_def)
  show ?thesis
    using setDisassembly_assertions_iff [of exampleOutput exampleFileSystem initialModel
        exampleSource exampleResults, OF o(1,2) r(1)]
      setDisassembly_assertions_iff [of singleLineOutput exampleFileSystem initialModel
        exampleSource exampleResults, OF o(3,4) r(2)]
      o two nonneg one
    by blast
qed

text \<open>
  C4 as written fails where a main-file entry has a negative line number: the file
  opens, the entries at positions 1 and 2 are of the main source file with the distinct
  positive line numbers 3 and 7, and the first assertion fails, since \<^verbatim>\<open>minLineNumber\<close>
  is -5.
\<close>

theorem setDisassembly_assertions_counterexample:
  "mainSourceFileName negativeLineOutput \<noteq> []
   \<and> exampleFileSystem (m_sysroot initialModel @ QDir_separator
        @ mainSourceFileName negativeLineOutput) = Some exampleSource
   \<and> sourceFileName (disassemblyLines negativeLineOutput ! 1)
       = mainSourceFileName negativeLineOutput
   \<and> sourceCodeLine (disassemblyLines negativeLineOutput ! 1) = 3
   \<and> sourceFileName (disassemblyLines negativeLineOutput ! 2)
       = mainSourceFileName negativeLineOutput
   \<and> sourceCodeLine (disassemblyLines negativeLineOutput ! 2) = 7
   \<and> fst (snd (setDisassembly_loop negativeLineOutput exampleResults
        (disassemblyLines negativeLineOutput) (0, INT_MAX, initialModel))) = - 5
   \<and> setDisassembly exampleFileSystem initialModel negativeLineOutput exampleResults
       = Inl AssertionFailed"
  by (simp add: setDisassembly_def Let_def exampleFileSystem_def initialModel_def
        negativeLineOutput_def exampleResults_def exampleSymbol_def
        QDir_separator_def INT_MAX_def)

text \<open>
  C5. \<^verbatim>\<open>clear\<close> empties the text document and resets nothing else: the line count, both
  cost tables, the valid line numbers, the line offset, the start line and the main source
  file name stay, so \<^verbatim>\<open>rowCount\<close> answers as before, and so does \<^verbatim>\<open>data\<close> wherever it does
  not read the document (any column but the source code column, or any role outside the
  five that read it).
\<close>

theorem clear_only_empties_document:
  "clear m = m\<lparr>m_document := emptyDocument\<rparr>
   \<and> m_document (clear m) = emptyDocument
   \<and> m_numLines (clear m) = m_numLines m
   \<and> m_selfCosts (clear m) = m_selfCosts m
   \<and> m_inclusiveCosts (clear m) = m_inclusiveCosts m
   \<and> m_validLineNumbers (clear m) = m_validLineNumbers m
   \<and> m_lineOffset (clear m) = m_lineOffset m
   \<and> m_startLine (clear m) = m_startLine m
   \<and> m_mainSourceFileName (clear m) = m_mainSourceFileName m
   \<and> rowCount (clear m) p = rowCount m p
   \<and> columnCount (clear m) p = columnCount m p
   \<and> (column index \<noteq> SourceCodeColumn
        \<or> r \<notin> {DisplayRole, ToolTipRole, CostRole, TotalCostRole, SyntaxHighlightRole} \<longrightarrow>
        data (clear m) index r = data m index r)"
  by (auto simp: clear_def rowCount_def columnCount_def data_def hasIndex_def Let_def)

theorem clear_only_empties_document_witness:
  "m_document (clear exampleModel) = [[]]
   \<and> rowCount (clear exampleModel) rootIndex = 3
   \<and> data (clear exampleModel) \<lparr>row = 1, column = 0, hasModel = True\<rparr> LineNumberRole = VInt 4
   \<and> data (clear exampleModel) \<lparr>row = 1, column = 2, hasModel = True\<rparr> CostRole = VCost 7"
  using clear_only_empties_document [of exampleModel rootIndex
      "\<lparr>row = 1, column = 0, hasModel = True\<rparr>" LineNumberRole]
    clear_only_empties_document [of exampleModel rootIndex
      "\<lparr>row = 1, column = 2, hasModel = True\<rparr>" CostRole]
  by (simp add: data_def hasIndex_bounds exampleModel_counts exampleModel_costs costVariant_def
        emptyDocument_def rowCount_def rootIndex_def isValid_def
        COLUMN_COUNT_def SourceCodeColumn_def SourceCodeLineNumber_def)

text \<open>
  C6. The handler of \<^verbatim>\<open>parsingFinished\<close> makes the results page the current widget of the
  main page stack and the summary tab the current tab, and hides the progress bar and the
  loading label.
\<close>

theorem parsingFinished_shows_results:
  "mainPageStack_currentWidget (on_parsingFinished w) = resultsPage
   \<and> resultsTabWidget_currentWidget (on_parsingFinished w) = summaryTab
   \<and> \<not> openFileProgressBar_visible (on_parsingFinished w)
   \<and> \<not> loadingResultsLabel_visible (on_parsingFinished w)"
  by (simp add: on_parsingFinished_def hideLoadingResults_def Let_def)

text \<open>
  C7. Under a valid parent \<^verbatim>\<open>rowCount\<close> and \<^verbatim>\<open>columnCount\<close> are 0; under the root
  \<^verbatim>\<open>rowCount\<close> is \<open>m_numLines\<close> and \<^verbatim>\<open>columnCount\<close> is \<open>COLUMN_COUNT\<close> plus the numbers of
  self cost types and of inclusive cost types.
\<close>

theorem rowCount_columnCount:
  "(isValid p \<longrightarrow> rowCount m p = 0 \<and> columnCount m p = 0)
   \<and> (\<not> isValid p \<longrightarrow>
        rowCount m p = m_numLines m
      \<and> columnCount m p
          = COLUMN_COUNT + numTypes (m_selfCosts m) + numTypes (m_inclusiveCosts m))"
  by (simp add: rowCount_def columnCount_def)

theorem rowCount_columnCount_witness:
  "isValid \<lparr>row = 0, column = 0, hasModel = True\<rparr>
   \<and> rowCount exampleModel \<lparr>row = 0, column = 0, hasModel = True\<rparr> = 0
   \<and> columnCount exampleModel \<lparr>row = 0, column = 0, hasModel = True\<rparr> = 0
   \<and> \<not> isValid rootIndex
   \<and> rowCount exampleModel rootIndex = 3
   \<and> columnCount exampleModel rootIndex = 4"
  using rowCount_columnCount [of "\<lparr>row = 0, column = 0, hasModel = True\<rparr>" exampleModel]
    rowCount_columnCount [of rootIndex exampleModel]
  by (simp add: isValid_def rootIndex_def exampleModel_counts COLUMN_COUNT_def)

text \<open>
  C8. For an index that \<^verbatim>\<open>hasIndex\<close> accepts, \<^verbatim>\<open>data\<close> under \<^verbatim>\<open>RainbowLineNumberRole\<close>
  returns \<open>row + m_lineOffset\<close> when that number is in \<open>m_validLineNumbers\<close> and -1
  otherwise; and after a \<^verbatim>\<open>setDisassembly\<close> that opened the source file,
  \<open>m_validLineNumbers\<close> is the set of the \<^verbatim>\<open>sourceCodeLine\<close> values of the disassembly
  lines of the main source file that the loop does not skip.
\<close>

theorem data_RainbowLineNumberRole:
  "(hasIndex m (row index) (column index) (parent index) \<longrightarrow>
      data m index RainbowLineNumberRole =
        (if row index + m_lineOffset m \<in> m_validLineNumbers m
         then VInt (row index + m_lineOffset m) else VInt (- 1)))
   \<and> (mainSourceFileName out \<noteq> []
        \<and> fs (m_sysroot m0 @ QDir_separator @ mainSourceFileName out) \<noteq> None
        \<and> setDisassembly fs m0 out results = Inr m \<longrightarrow>
      m_validLineNumbers m =
        sourceCodeLine ` {line \<in> set (disassemblyLines out).
                           sourceCodeLine line \<noteq> 0
                         \<and> sourceFileName line = mainSourceFileName out})"
proof (intro conjI impI)
  assume "hasIndex m (row index) (column index) (parent index)"
  then show "data m index RainbowLineNumberRole =
        (if row index + m_lineOffset m \<in> m_validLineNumbers m
         then VInt (row index + m_lineOffset m) else VInt (- 1))"
    unfolding hasIndex_bounds by (simp add: data_def hasIndex_bounds Let_def)
next
  assume a: "mainSourceFileName out \<noteq> []
        \<and> fs (m_sysroot m0 @ QDir_separator @ mainSourceFileName out) \<noteq> None
        \<and> setDisassembly fs m0 out results = Inr m"
  then obtain sourceCode where
    f: "fs (m_sysroot m0 @ QDir_separator @ mainSourceFileName out) = Some sourceCode"
    by blast
  from a have n: "mainSourceFileName out \<noteq> []" by simp
  from setDisassembly_opened [of out fs m0 sourceCode results, OF n f]
  obtain maxLineNumber minLineNumber m1 m2 where
    loop: "setDisassembly_loop out results (disassemblyLines out) (0, INT_MAX, m1)
      = (maxLineNumber, minLineNumber, m2)"
    and empty: "m_validLineNumbers m1 = {}"
    and res: "setDisassembly fs m0 out results =
      (if 0 < minLineNumber \<and> minLineNumber < maxLineNumber
       then Inr (m2\<lparr>m_startLine := minLineNumber - 2, m_lineOffset := minLineNumber - 1,
                   m_numLines := maxLineNumber - (minLineNumber - 2),
                   m_document := replaceLineUnderCursor (m_document m2) (minLineNumber - 2)
                                  (prettySymbol (disassemblySymbol out))\<rparr>)
       else Inl AssertionFailed)"
    by blast
  from a res have "m_validLineNumbers m = m_validLineNumbers m2"
    by (auto split: if_splits)
  also have "\<dots> = set (mainFileLineNumbers (mainSourceFileName out) (disassemblyLines out))"
    using setDisassembly_loop_result [OF loop] empty by simp
  also have "\<dots> = sourceCodeLine ` {line \<in> set (disassemblyLines out).
                           sourceCodeLine line \<noteq> 0
                         \<and> sourceFileName line = mainSourceFileName out}"
    by (auto simp: mainFileLineNumbers_def)
  finally show "m_validLineNumbers m =
        sourceCodeLine ` {line \<in> set (disassemblyLines out).
                           sourceCodeLine line \<noteq> 0
                         \<and> sourceFileName line = mainSourceFileName out}" .
qed

theorem data_RainbowLineNumberRole_witness:
  "hasIndex exampleModel 0 0 rootIndex \<and> hasIndex exampleModel 1 0 rootIndex
   \<and> data exampleModel \<lparr>row = 0, column = 0, hasModel = True\<rparr> RainbowLineNumberRole
       = VInt (- 1)
   \<and> data exampleModel \<lparr>row = 1, column = 0, hasModel = True\<rparr> RainbowLineNumberRole
       = VInt 4
   \<and> mainSourceFileName exampleOutput \<noteq> []
   \<and> exampleFileSystem (m_sysroot initialModel @ QDir_separator
        @ mainSourceFileName exampleOutput) \<noteq> None
   \<and> setDisassembly exampleFileSystem initialModel exampleOutput exampleResults
       = Inr exampleModel
   \<and> m_validLineNumbers exampleModel
       = sourceCodeLine ` {line \<in> set (disassemblyLines exampleOutput).
                           sourceCodeLine line \<noteq> 0
                         \<and> sourceFileName line = mainSourceFileName exampleOutput}"
proof -
  have h: "hasIndex exampleModel 0 0 rootIndex" "hasIndex exampleModel 1 0 rootIndex"
    by (simp_all add: hasIndex_bounds [of _ _ _ undefined, unfolded parent_def]
          exampleModel_counts COLUMN_COUNT_def)
  have v: "3 \<notin> m_validLineNumbers exampleModel" "4 \<in> m_validLineNumbers exampleModel"
    by (simp_all add: exampleModel_def)
  have o: "mainSourceFileName exampleOutput \<noteq> []"
    "exampleFileSystem (m_sysroot initialModel @ QDir_separator
        @ mainSourceFileName exampleOutput) \<noteq> None"
    using example_opens by (simp_all add: exampleOutput_def)
  show ?thesis
    using data_RainbowLineNumberRole [of exampleModel "\<lparr>row = 0, column = 0, hasModel = True\<rparr>"
        exampleOutput exampleFileSystem initialModel exampleResults]
      data_RainbowLineNumberRole [of exampleModel "\<lparr>row = 1, column = 0, hasModel = True\<rparr>"
        exampleOutput exampleFileSystem initialModel exampleResults]
      h v o example_loaded
    by (simp add: parent_def exampleModel_counts)
qed



text \<open>
  C10. For every duration, \<^verbatim>\<open>formatTimeString\<close> writes the days, the hours and the minutes,
  each on at least two digits and followed by a colon, only where the field is not zero,
  then the seconds on two digits, a dot, the milliseconds on three digits, and "s". So it
  is not injective: 3605 seconds, 65 seconds and 86405 seconds all give "01:05.000s".
  Under one minute the output is the seconds on two digits, a dot, the milliseconds on
  three digits, and "s".
\<close>

theorem formatTimeString_not_injective:
  "formatTimeString nanoseconds =
       (if nanoseconds div 1000000000 div 60 div 60 div 24 = 0 then []
        else format (nanoseconds div 1000000000 div 60 div 60 div 24) 2 @ '':'')
     @ (if nanoseconds div 1000000000 div 60 div 60 mod 24 = 0 then []
        else format (nanoseconds div 1000000000 div 60 div 60 mod 24) 2 @ '':'')
     @ (if nanoseconds div 1000000000 div 60 mod 60 = 0 then []
        else format (nanoseconds div 1000000000 div 60 mod 60) 2 @ '':'')
     @ format (nanoseconds div 1000000000 mod 60) 2 @ ''.''
     @ format (nanoseconds div 1000000 mod 1000) 3 @ ''s''
   \<and> optional 0 = []
   \<and> formatTimeString (3605 * 1000000000) = ''01:05.000s''
   \<and> formatTimeString (65 * 1000000000) = ''01:05.000s''
   \<and> formatTimeString (86405 * 1000000000) = ''01:05.000s''
   \<and> \<not> inj formatTimeString
   \<and> (nanoseconds < 60 * 1000000000 \<longrightarrow>
        formatTimeString nanoseconds =
          [digit (nanoseconds div 1000000000 div 10), digit (nanoseconds div 1000000000 mod 10),
           CHR ''.'',
           digit (nanoseconds div 1000000 mod 1000 div 100),
           digit (nanoseconds div 1000000 mod 1000 div 10 mod 10),
           digit (nanoseconds div 1000000 mod 1000 mod 10),
           CHR ''s''])"
proof -
  have u: "formatTimeString nanoseconds =
       (if nanoseconds div 1000000000 div 60 div 60 div 24 = 0 then []
        else format (nanoseconds div 1000000000 div 60 div 60 div 24) 2 @ '':'')
     @ (if nanoseconds div 1000000000 div 60 div 60 mod 24 = 0 then []
        else format (nanoseconds div 1000000000 div 60 div 60 mod 24) 2 @ '':'')
     @ (if nanoseconds div 1000000000 div 60 mod 60 = 0 then []
        else format (nanoseconds div 1000000000 div 60 mod 60) 2 @ '':'')
     @ format (nanoseconds div 1000000000 mod 60) 2 @ ''.''
     @ format (nanoseconds div 1000000 mod 1000) 3 @ ''s''"
    by (simp add: formatTimeString_def Let_def optional_def)
  have a: "formatTimeString (3605 * 1000000000) = ''01:05.000s''"
    by (simp add: formatTimeString_def Let_def optional_def format_2 format_3 digit_def)
  have b: "formatTimeString (65 * 1000000000) = ''01:05.000s''"
    by (simp add: formatTimeString_def Let_def optional_def format_2 format_3 digit_def)
  have c: "formatTimeString (86405 * 1000000000) = ''01:05.000s''"
    by (simp add: formatTimeString_def Let_def optional_def format_2 format_3 digit_def)
  have n: "\<not> inj formatTimeString"
  proof
    assume "inj formatTimeString"
    from injD [OF this, of "3605 * 1000000000" "65 * 1000000000"] a b show False
      by simp
  qed
  have o: "optional 0 = []"
    by (simp add: optional_def)
  have m: "nanoseconds < 60 * 1000000000 \<longrightarrow>
        formatTimeString nanoseconds =
          [digit (nanoseconds div 1000000000 div 10), digit (nanoseconds div 1000000000 mod 10),
           CHR ''.'',
           digit (nanoseconds div 1000000 mod 1000 div 100),
           digit (nanoseconds div 1000000 mod 1000 div 10 mod 10),
           digit (nanoseconds div 1000000 mod 1000 mod 10),
           CHR ''s'']"
    using formatTimeString_under_minute [of nanoseconds] by simp
  from u o a b c n m show ?thesis
    by (intro conjI)
qed

theorem formatTimeString_not_injective_witness:
  "(5123000000 :: nat) < 60 * 1000000000 \<and> formatTimeString 5123000000 = ''05.123s''"
  using formatTimeString_not_injective [of 5123000000, THEN conjunct2]
  by (simp add: digit_def)

end
